theory Spec2Isabelle
  imports Main "HOL-Library.AList" "HOL-Library.Sublist" "HOL-Library.Char_ord"
    "HOL-Library.List_Lexorder"
begin

section \<open>The purchase validation endpoint (src/api/validate-purchase.js)\<close>

text \<open>
  A shallow embedding of the request handler, its two validators, the signature stub and
  the order cache. One invocation of \<open>handler\<close> is modelled as a function from the
  cache before the call to the response and the cache after it. Everything the code
  reads from outside (the wall clock, the random suffix of the request identifier, the
  answer of the remote verification service) is an explicit input of the call.
  Log output (\<open>console.log\<close>, \<open>console.warn\<close>, \<open>console.error\<close>) and the 300 ms
  delay of the simulated validator have no effect on a response or on the cache and are
  left out.
\<close>

subsection \<open>JavaScript values\<close>

text \<open>
  The fields of a parsed JSON body are arbitrary JSON values, and an absent field reads
  as \<open>undefined\<close>. Of a number the code observes whether it is zero (truthiness, and
  \<open>=== 0\<close> at line 130) and the text that \<open>ToString\<close> gives for it: \<open>JZero\<close> is the number
  zero (\<open>0\<close> and \<open>-0\<close>, which the code cannot tell apart), and \<open>JNum s\<close> is any other
  number, integer or not, kept as its text \<open>s\<close> (\<open>7\<close>, \<open>1.5\<close>, \<open>1e+21\<close>). JSON has no
  \<open>NaN\<close> and no infinity. An object or an array is likewise kept as the text that
  \<open>ToString\<close> gives for it, which is all the code ever observes of one.
\<close>

datatype jsval =
    JUndefined
  | JNull
  | JBool bool
  | JZero
  | JNum string
  | JStr string
  | JObj string

text \<open>Truthiness, as \<open>!x\<close>, \<open>x && y\<close> and \<open>x || y\<close> test it.\<close>

fun js_truthy :: "jsval \<Rightarrow> bool" where
  "js_truthy JUndefined = False"
| "js_truthy JNull = False"
| "js_truthy (JBool b) = b"
| "js_truthy JZero = False"
| "js_truthy (JNum s) = True"
| "js_truthy (JStr s) = (s \<noteq> [])"
| "js_truthy (JObj s) = True"

text \<open>
  The decimal digits of a clock reading, as string concatenation renders it (lines 219
  and 236). \<open>Date.now()\<close> is an integer number of milliseconds of magnitude at most
  8.64e15, the range of a time value, and the text of such a number is its decimal
  digits.
\<close>

definition digit_char :: "nat \<Rightarrow> char" where
  "digit_char d = ''0123456789'' ! d"

fun show_nat :: "nat \<Rightarrow> string" where
  "show_nat n = (if n < 10 then [digit_char n] else show_nat (n div 10) @ [digit_char (n mod 10)])"

declare show_nat.simps [simp del]

definition show_int :: "int \<Rightarrow> string" where
  "show_int i = (if i < 0 then CHR ''-'' # show_nat (nat (- i)) else show_nat (nat i))"

text \<open>\<open>ToString\<close>, as a template literal applies it to an interpolated value.\<close>

fun js_toString :: "jsval \<Rightarrow> string" where
  "js_toString JUndefined = ''undefined''"
| "js_toString JNull = ''null''"
| "js_toString (JBool b) = (if b then ''true'' else ''false'')"
| "js_toString JZero = ''0''"
| "js_toString (JNum s) = s"
| "js_toString (JStr s) = s"
| "js_toString (JObj s) = s"

subsection \<open>Response payloads\<close>

text \<open>
  The message texts of the source are fixed Chinese strings, some with an interpolated
  part. Each fixed text is a constructor (the comment gives the source line and the
  meaning of the text); an interpolated part is the constructor's argument.
\<close>

datatype js_error =
    TypeError_destructure     \<comment> \<open>line 39: \<open>req.body\<close> is \<open>undefined\<close> or \<open>null\<close>\<close>
  | TypeError_not_a_function  \<comment> \<open>line 174: \<open>purchaseToken.startsWith\<close> on a non-string\<close>

datatype failure_detail =
    Remote_msg string         \<comment> \<open>line 141: \<open>response.data?.msg\<close>, when truthy\<close>
  | Error_code string         \<comment> \<open>line 141: the label "error code: " and \<open>response.data?.ret\<close>\<close>

datatype message =
    Msg_method_not_allowed    \<comment> \<open>line 28: 'Method not allowed'\<close>
  | Msg_missing_parameters    \<comment> \<open>line 46: "missing required parameters: product_id, purchase_token, user_id"\<close>
  | Msg_duplicate_order       \<comment> \<open>line 57: "duplicate order (already processed)"\<close>
  | Msg_internal_error js_error  \<comment> \<open>line 97: "internal server error: " and \<open>error.message\<close>\<close>
  | Msg_pico_verified         \<comment> \<open>line 133: "PICO payment verified"\<close>
  | Msg_pico_failed failure_detail  \<comment> \<open>line 141: "PICO verification failed: " and the detail\<close>
  | Msg_service_unavailable   \<comment> \<open>line 151: "payment verification service temporarily unavailable"\<close>
  | Msg_request_timeout       \<comment> \<open>line 153: "verification request timed out"\<close>
  | Msg_pico_server_error string  \<comment> \<open>line 155: "PICO server error: " and \<open>error.response.status\<close>\<close>
  | Msg_simulated_verified    \<comment> \<open>line 180: "simulated payment verified"\<close>
  | Msg_simulated_invalid_token  \<comment> \<open>line 188: "simulated payment verification failed: invalid payment token"\<close>

text \<open>
  Every object literal the code sends or returns as a result has \<open>success\<close> and
  \<open>message\<close>; the other keys are present in some literals only. \<open>server_time\<close> holds the
  instant that \<open>new Date().toISOString()\<close> renders.
\<close>

record payload =
  success :: bool
  message :: message
  validated_product_id :: "jsval option"
  is_duplicate :: "bool option"
  request_id :: "string option"
  server_time :: "int option"
  processing_time :: "int option"

subsection \<open>The simulated validator\<close>

text \<open>\<open>validateSimulatedPurchase\<close>, lines 169-194. \<open>stamp\<close> is the clock at \<open>new Date()\<close>.\<close>

fun validateSimulatedPurchase :: "int \<Rightarrow> jsval \<Rightarrow> jsval \<Rightarrow> jsval \<Rightarrow> js_error + payload" where
  "validateSimulatedPurchase stamp productId (JStr purchaseToken) userId =
     (let isValid = (prefix ''simulated_purchase_token_'' purchaseToken
                     \<or> prefix ''test_'' purchaseToken)
      in if isValid then
           Inr \<lparr>success = True, message = Msg_simulated_verified,
                validated_product_id = Some productId, is_duplicate = Some False,
                request_id = None, server_time = Some stamp, processing_time = None\<rparr>
         else
           Inr \<lparr>success = False, message = Msg_simulated_invalid_token,
                validated_product_id = Some productId, is_duplicate = Some False,
                request_id = None, server_time = Some stamp, processing_time = None\<rparr>)"
| "validateSimulatedPurchase stamp productId purchaseToken userId = Inl TypeError_not_a_function"

subsection \<open>Configuration\<close>

text \<open>
  \<open>PICO_CONFIG\<close>, lines 4-8. The two credentials come from the process environment
  (\<open>None\<close>: the variable is unset); \<open>||\<close> falls back to the default for an unset and for
  an empty variable.
\<close>

record process_env =
  PICO_APP_ID :: "string option"
  PICO_APP_SECRET :: "string option"

definition or_default :: "string option \<Rightarrow> string \<Rightarrow> string" where
  "or_default v d = (case v of None \<Rightarrow> d | Some s \<Rightarrow> (if s = [] then d else s))"

definition APP_ID :: "process_env \<Rightarrow> string" where
  "APP_ID env = or_default (PICO_APP_ID env) ''your_pico_app_id''"

definition APP_SECRET :: "process_env \<Rightarrow> string" where
  "APP_SECRET env = or_default (PICO_APP_SECRET env) ''your_pico_app_secret''"

definition VALIDATION_URL :: string where
  "VALIDATION_URL = ''https://open-api.pico.cn/platform/serverapi/purchase/check''"

subsection \<open>The signature stub\<close>

text \<open>
  A plain object is its list of keys and values, in insertion order. \<open>get_prop\<close> is
  \<open>data[key]\<close>, which is \<open>undefined\<close> for a key the object does not have.
\<close>

type_synonym js_object = "(string \<times> jsval) list"

definition get_prop :: "js_object \<Rightarrow> string \<Rightarrow> jsval" where
  "get_prop data key = (case map_of data key of None \<Rightarrow> JUndefined | Some v \<Rightarrow> v)"

text \<open>
  Lines 202-209: the canonical string. The keys are sorted (\<open>Array.prototype.sort\<close>
  without a comparator orders strings by their code units, lexicographically), every key
  but \<open>sign\<close> contributes \<open>key=value&\<close>, and \<open>slice(0, -1)\<close> drops the last character.
\<close>

definition sign_piece :: "js_object \<Rightarrow> string \<Rightarrow> string" where
  "sign_piece data key =
     (if key \<noteq> ''sign'' then key @ ''='' @ js_toString (get_prop data key) @ ''&'' else [])"

definition signString :: "js_object \<Rightarrow> string" where
  "signString data =
     (let sortedKeys = sort (map fst data)
      in butlast (concat (map (sign_piece data) sortedKeys)))"

text \<open>
  \<open>generatePicoSignature\<close>, lines 197-220. The canonical string is computed and then not
  used: the keyed digest is commented out, and the value returned is the placeholder of
  line 219. \<open>now\<close> is the reading of \<open>Date.now()\<close> there.
\<close>

definition generatePicoSignature :: "int \<Rightarrow> js_object \<Rightarrow> string" where
  "generatePicoSignature now data =
     (let canonical = signString data
      in ''demo_signature_'' @ show_int now)"

subsection \<open>The live validator\<close>

text \<open>
  What \<open>axios.post\<close> does (lines 120-126): it resolves with a response, of which the
  code reads \<open>data\<close> only, or it rejects with an error, of which the code reads \<open>code\<close>
  and \<open>response.status\<close>. A response whose \<open>data\<close> is not an object (\<open>null\<close>, a string,
  a number) has neither \<open>ret\<close> nor \<open>msg\<close> and is \<open>None\<close> here.
\<close>

record remote_data =
  ret :: jsval
  msg :: jsval

record axios_error =
  err_code :: jsval
  err_response_status :: "jsval option"

datatype remote_outcome =
    Resolved "remote_data option"
  | Rejected axios_error

definition data_ret :: "remote_data option \<Rightarrow> jsval" where
  "data_ret d = (case d of None \<Rightarrow> JUndefined | Some r \<Rightarrow> ret r)"

definition data_msg :: "remote_data option \<Rightarrow> jsval" where
  "data_msg d = (case d of None \<Rightarrow> JUndefined | Some r \<Rightarrow> msg r)"

text \<open>
  The readings one call of the handler takes from outside, each named after the place
  that reads it. No relation between the clock readings is assumed: the wall clock can
  be set between two of them.
\<close>

record io =
  clock_rid :: int       \<comment> \<open>line 236: \<open>Date.now()\<close> in \<open>generateRequestId\<close>\<close>
  random_rid :: string   \<comment> \<open>line 236: \<open>Math.random().toString(36).substr(2, 9)\<close>\<close>
  clock_start :: int     \<comment> \<open>line 33: \<open>startTime\<close>\<close>
  clock_sign :: int      \<comment> \<open>line 219: \<open>Date.now()\<close> in \<open>generatePicoSignature\<close>\<close>
  remote :: "js_object \<Rightarrow> remote_outcome"  \<comment> \<open>line 120: the service, given the request data\<close>
  clock_stamp :: int     \<comment> \<open>\<open>new Date()\<close> of the one \<open>server_time\<close> a call writes\<close>
  clock_insert :: int    \<comment> \<open>line 78: the \<open>timestamp\<close> of the new cache entry\<close>
  clock_sweep :: int     \<comment> \<open>line 224: \<open>now\<close> in \<open>cleanupOldOrders\<close>\<close>
  clock_end :: int       \<comment> \<open>line 84: \<open>Date.now()\<close> for \<open>processingTime\<close>\<close>

text \<open>Lines 108-116: the request data, with \<open>sign\<close> set last.\<close>

definition pico_request_data :: "process_env \<Rightarrow> io \<Rightarrow> jsval \<Rightarrow> jsval \<Rightarrow> jsval \<Rightarrow> js_object" where
  "pico_request_data env w productId purchaseToken userId =
     (let requestData = [(''app_id'', JStr (APP_ID env)), (''user_id'', userId),
                         (''product_id'', productId), (''purchase_token'', purchaseToken)]
      in AList.update ''sign'' (JStr (generatePicoSignature (clock_sign w) requestData))
           requestData)"

text \<open>Lines 151-156: the message for a rejected request.\<close>

definition pico_error_message :: "axios_error \<Rightarrow> message" where
  "pico_error_message error =
     (if err_code error = JStr ''ECONNABORTED'' then Msg_request_timeout
      else (case err_response_status error of
              Some st \<Rightarrow> Msg_pico_server_error (js_toString st)
            | None \<Rightarrow> Msg_service_unavailable))"

text \<open>
  Line 141: the remote \<open>msg\<close> when it is truthy, otherwise the label "error code: "
  followed by the remote \<open>ret\<close>; both read \<open>undefined\<close> from a response without data.
\<close>

definition pico_failure_detail :: "remote_data option \<Rightarrow> failure_detail" where
  "pico_failure_detail d =
     (if js_truthy (data_msg d) then Remote_msg (js_toString (data_msg d))
      else Error_code (js_toString (data_ret d)))"

text \<open>\<open>validatePicoPurchase\<close>, lines 105-166. Nothing in its \<open>try\<close> block but the request
  can throw, and the \<open>catch\<close> returns a result, so the function always returns one.\<close>

definition validatePicoPurchase :: "process_env \<Rightarrow> io \<Rightarrow> jsval \<Rightarrow> jsval \<Rightarrow> jsval \<Rightarrow> payload" where
  "validatePicoPurchase env w productId purchaseToken userId =
     (case remote w (pico_request_data env w productId purchaseToken userId) of
        Resolved d \<Rightarrow>
          (if d \<noteq> None \<and> data_ret d = JZero then
             \<lparr>success = True, message = Msg_pico_verified,
              validated_product_id = Some productId, is_duplicate = Some False,
              request_id = None, server_time = Some (clock_stamp w), processing_time = None\<rparr>
           else
             \<lparr>success = False, message = Msg_pico_failed (pico_failure_detail d),
              validated_product_id = Some productId, is_duplicate = Some False,
              request_id = None, server_time = Some (clock_stamp w), processing_time = None\<rparr>)
      | Rejected error \<Rightarrow>
          \<lparr>success = False, message = pico_error_message error,
           validated_product_id = Some productId, is_duplicate = Some False,
           request_id = None, server_time = Some (clock_stamp w), processing_time = None\<rparr>)"

subsection \<open>The order cache\<close>

text \<open>
  \<open>orderCache\<close> (line 11) is a \<open>Map\<close> from the order key to the entry written at
  lines 75-79: the list of its entries in insertion order. \<open>Map.prototype.has\<close> is
  \<open>cache_has\<close>, \<open>set\<close> is \<open>AList.update\<close> (a present key keeps its place, a new key goes
  last) and \<open>delete\<close> is \<open>AList.delete\<close>. The keys of a \<open>Map\<close> are distinct
  (\<open>wf_cache\<close>).
\<close>

record order =
  order_product_id :: jsval
  order_user_id :: jsval
  timestamp :: int

type_synonym cache = "(string \<times> order) list"

definition cache_has :: "cache \<Rightarrow> string \<Rightarrow> bool" where
  "cache_has c k = (map_of c k \<noteq> None)"

definition wf_cache :: "cache \<Rightarrow> bool" where
  "wf_cache c = distinct (map fst c)"

definition twentyFourHours :: int where
  "twentyFourHours = 24 * 60 * 60 * 1000"

text \<open>
  \<open>cleanupOldOrders\<close>, lines 223-232. The loop visits the entries the map has when the
  loop starts: the only change to the map during the loop is the removal of the entry
  being visited, which does not disturb the iteration of a \<open>Map\<close>.
\<close>

fun cleanup_loop :: "int \<Rightarrow> (string \<times> order) list \<Rightarrow> cache \<Rightarrow> cache" where
  "cleanup_loop now [] c = c"
| "cleanup_loop now ((key, order) # entries) c =
     cleanup_loop now entries
       (if now - timestamp order > twentyFourHours then AList.delete key c else c)"

definition cleanupOldOrders :: "int \<Rightarrow> cache \<Rightarrow> cache" where
  "cleanupOldOrders now c = cleanup_loop now c c"

subsection \<open>The request handler\<close>

text \<open>
  A request is its method and its parsed body. \<open>body = None\<close> is a body that is
  \<open>undefined\<close> or \<open>null\<close>, which the destructuring of line 39 cannot read. A body that
  is not an object (a string, a number) has none of the fields: all of them are
  \<open>JUndefined\<close>.
\<close>

record body =
  product_id :: jsval
  purchase_token :: jsval
  user_id :: jsval
  platform :: jsval
  app_version :: jsval
  device_id :: jsval

record request =
  http_method :: string  \<comment> \<open>\<open>req.method\<close>\<close>
  body :: "body option"

record response =
  status :: nat
  headers :: "(string \<times> string) list"
  json :: "payload option"

text \<open>Lines 15-17.\<close>

definition cors_headers :: "(string \<times> string) list" where
  "cors_headers =
     [(''Access-Control-Allow-Origin'', ''*''),
      (''Access-Control-Allow-Methods'', ''POST, OPTIONS''),
      (''Access-Control-Allow-Headers'', ''Content-Type, X-App-Version, X-Platform'')]"

text \<open>\<open>generateRequestId\<close>, lines 235-237.\<close>

definition generateRequestId :: "int \<Rightarrow> string \<Rightarrow> string" where
  "generateRequestId now rnd = ''req_'' @ show_int now @ ''_'' @ rnd"

text \<open>Line 39: the default of the destructuring applies to \<open>undefined\<close> only.\<close>

definition platform_or_default :: "jsval \<Rightarrow> jsval" where
  "platform_or_default p = (case p of JUndefined \<Rightarrow> JStr ''pico'' | _ \<Rightarrow> p)"

text \<open>Line 52.\<close>

definition orderKey_of :: "jsval \<Rightarrow> jsval \<Rightarrow> string" where
  "orderKey_of userId purchaseToken = js_toString userId @ ''_'' @ js_toString purchaseToken"

text \<open>Lines 67-71: the validator the platform selects.\<close>

definition dispatch :: "process_env \<Rightarrow> io \<Rightarrow> jsval \<Rightarrow> jsval \<Rightarrow> jsval \<Rightarrow> jsval \<Rightarrow> js_error + payload" where
  "dispatch env w platformName productId purchaseToken userId =
     (if platformName = JStr ''pico''
      then Inr (validatePicoPurchase env w productId purchaseToken userId)
      else validateSimulatedPurchase (clock_stamp w) productId purchaseToken userId)"

text \<open>The object literals the handler sends, and \<open>res.json\<close> with and without a status.\<close>

definition method_not_allowed_payload :: "string \<Rightarrow> payload" where
  \<comment> \<open>lines 26-30\<close>
  "method_not_allowed_payload requestId =
     \<lparr>success = False, message = Msg_method_not_allowed,
      validated_product_id = None, is_duplicate = None,
      request_id = Some requestId, server_time = None, processing_time = None\<rparr>"

definition missing_parameters_payload :: "string \<Rightarrow> payload" where
  \<comment> \<open>lines 44-48\<close>
  "missing_parameters_payload requestId =
     \<lparr>success = False, message = Msg_missing_parameters,
      validated_product_id = None, is_duplicate = None,
      request_id = Some requestId, server_time = None, processing_time = None\<rparr>"

definition duplicate_payload :: "io \<Rightarrow> body \<Rightarrow> string \<Rightarrow> payload" where
  \<comment> \<open>lines 55-62\<close>
  "duplicate_payload w b requestId =
     \<lparr>success = True, message = Msg_duplicate_order,
      validated_product_id = Some (product_id b), is_duplicate = Some True,
      request_id = Some requestId, server_time = Some (clock_stamp w),
      processing_time = None\<rparr>"

definition internal_error_payload :: "io \<Rightarrow> js_error \<Rightarrow> string \<Rightarrow> payload" where
  \<comment> \<open>lines 95-100\<close>
  "internal_error_payload w error requestId =
     \<lparr>success = False, message = Msg_internal_error error,
      validated_product_id = None, is_duplicate = None,
      request_id = Some requestId, server_time = Some (clock_stamp w),
      processing_time = None\<rparr>"

definition res_json :: "nat \<Rightarrow> payload \<Rightarrow> response" where
  "res_json st p = \<lparr>status = st, headers = cors_headers, json = Some p\<rparr>"

text \<open>Lines 75-79: \<open>orderCache.set\<close> of the new entry.\<close>

definition record_order :: "io \<Rightarrow> body \<Rightarrow> cache \<Rightarrow> cache" where
  "record_order w b orderCache =
     AList.update (orderKey_of (user_id b) (purchase_token b))
       \<lparr>order_product_id = product_id b, order_user_id = user_id b,
        timestamp = clock_insert w\<rparr> orderCache"

text \<open>
  Lines 37-91, the \<open>try\<close> block: \<open>Inl\<close> is a throw, \<open>Inr\<close> is the payload sent with the
  cache as the block leaves it. Both places that throw (lines 39 and 174) come before
  the cache is written.
\<close>

definition handler_try ::
  "process_env \<Rightarrow> io \<Rightarrow> cache \<Rightarrow> request \<Rightarrow> string \<Rightarrow> int \<Rightarrow> js_error + (payload \<times> cache)" where
  "handler_try env w orderCache req requestId startTime =
     (case body req of
        None \<Rightarrow> Inl TypeError_destructure
      | Some b \<Rightarrow>
          if \<not> js_truthy (product_id b) \<or> \<not> js_truthy (purchase_token b) \<or> \<not> js_truthy (user_id b)
          then Inr (missing_parameters_payload requestId, orderCache)
          else
            let orderKey = orderKey_of (user_id b) (purchase_token b) in
            if cache_has orderCache orderKey
            then Inr (duplicate_payload w b requestId, orderCache)
            else
              (case dispatch env w (platform_or_default (platform b))
                      (product_id b) (purchase_token b) (user_id b) of
                 Inl error \<Rightarrow> Inl error
               | Inr validationResult \<Rightarrow>
                   let orderCache' =
                         (if success validationResult \<and> is_duplicate validationResult \<noteq> Some True
                          then cleanupOldOrders (clock_sweep w) (record_order w b orderCache)
                          else orderCache);
                       processingTime = clock_end w - startTime
                   in Inr (validationResult\<lparr>request_id := Some requestId,
                                            processing_time := Some processingTime\<rparr>,
                           orderCache')))"

text \<open>\<open>handler\<close>, lines 13-102. \<open>res.json\<close> without \<open>res.status\<close> answers with status 200.\<close>

definition handler :: "process_env \<Rightarrow> io \<Rightarrow> cache \<Rightarrow> request \<Rightarrow> response \<times> cache" where
  "handler env w orderCache req =
     (if http_method req = ''OPTIONS'' then
        (\<lparr>status = 200, headers = cors_headers, json = None\<rparr>, orderCache)
      else if http_method req \<noteq> ''POST'' then
        (res_json 405
           (method_not_allowed_payload (generateRequestId (clock_rid w) (random_rid w))),
         orderCache)
      else
        let startTime = clock_start w;
            requestId = generateRequestId (clock_rid w) (random_rid w)
        in case handler_try env w orderCache req requestId startTime of
             Inr (sent, orderCache') \<Rightarrow> (res_json 200 sent, orderCache')
           | Inl error \<Rightarrow> (res_json 200 (internal_error_payload w error requestId), orderCache))"

subsection \<open>Runs of the endpoint\<close>

text \<open>
  A run starts with the empty cache of a fresh process and handles a list of calls, one
  after the other; it yields the cache and the exchanges (request and response) so far.
\<close>

type_synonym exchange = "request \<times> response"

definition serve_step :: "process_env \<Rightarrow> cache \<times> exchange list \<Rightarrow> io \<times> request \<Rightarrow> cache \<times> exchange list" where
  "serve_step env st call =
     (let (res, c') = handler env (fst call) (fst st) (snd call)
      in (c', snd st @ [(snd call, res)]))"

definition serve :: "process_env \<Rightarrow> (io \<times> request) list \<Rightarrow> cache \<times> exchange list" where
  "serve env calls = foldl (serve_step env) ([], []) calls"

text \<open>
  An exchange is a successful, non-duplicate validation of the pair \<open>(u, t)\<close> when its
  request carries that user and token and its response has \<open>success = true\<close> and
  \<open>is_duplicate = false\<close>.
\<close>

definition validates :: "jsval \<Rightarrow> jsval \<Rightarrow> exchange \<Rightarrow> bool" where
  "validates u t x =
     (case (body (fst x), json (snd x)) of
        (Some b, Some p) \<Rightarrow>
          user_id b = u \<and> purchase_token b = t \<and> success p \<and> is_duplicate p = Some False
      | _ \<Rightarrow> False)"

definition validated_before :: "exchange list \<Rightarrow> jsval \<Rightarrow> jsval \<Rightarrow> bool" where
  "validated_before log u t = list_ex (validates u t) log"

subsection \<open>Sample inputs\<close>

text \<open>Concrete inputs, at which the theorems below are instantiated.\<close>

definition sample_env :: process_env where
  "sample_env = \<lparr>PICO_APP_ID = None, PICO_APP_SECRET = None\<rparr>"

definition sample_io :: "int \<Rightarrow> remote_outcome \<Rightarrow> io" where
  "sample_io t out =
     \<lparr>clock_rid = t, random_rid = ''k3j9x0q2z'', clock_start = t, clock_sign = t + 1,
      remote = (\<lambda>data. out), clock_stamp = t + 300, clock_insert = t + 301,
      clock_sweep = t + 302, clock_end = t + 303\<rparr>"

definition sample_post :: "jsval \<Rightarrow> jsval \<Rightarrow> jsval \<Rightarrow> jsval \<Rightarrow> request" where
  "sample_post p t u pf =
     \<lparr>http_method = ''POST'',
      body = Some \<lparr>product_id = p, purchase_token = t, user_id = u, platform = pf,
                   app_version = JUndefined, device_id = JUndefined\<rparr>\<rparr>"

definition timed_out :: remote_outcome where
  "timed_out = Rejected \<lparr>err_code = JStr ''ECONNABORTED'', err_response_status = None\<rparr>"

definition sample_body :: body where
  "sample_body = \<lparr>product_id = JStr ''p1'', purchase_token = JStr ''test_abc'',
      user_id = JStr ''u1'', platform = JStr ''simulated'',
      app_version = JUndefined, device_id = JUndefined\<rparr>"

text \<open>
  Two runs. In the first, the user \<open>a_b\<close> has the token \<open>test_c\<close> validated. In the second,
  the user \<open>a\<close> has the token \<open>test_x_test_y\<close> validated, a validation 25 hours later
  sweeps that entry away, and then the user \<open>a_test_x\<close> has the token \<open>test_y\<close> validated.
\<close>

definition colliding_calls :: "(io \<times> request) list" where
  "colliding_calls =
     [(sample_io 1000 timed_out,
       sample_post (JStr ''p1'') (JStr ''test_c'') (JStr ''a_b'') (JStr ''simulated''))]"

definition evicting_calls :: "(io \<times> request) list" where
  "evicting_calls =
     [(sample_io 1000 timed_out,
       sample_post (JStr ''p1'') (JStr ''test_x_test_y'') (JStr ''a'') (JStr ''simulated'')),
      (sample_io 90000000 timed_out,
       sample_post (JStr ''p2'') (JStr ''test_q'') (JStr ''z'') (JStr ''simulated'')),
      (sample_io 90001000 timed_out,
       sample_post (JStr ''p3'') (JStr ''test_y'') (JStr ''a_test_x'') (JStr ''simulated''))]"

text \<open>
  The cache after the sample order of user \<open>u1\<close> with token \<open>test_abc\<close> and product \<open>p1\<close>,
  and readings in which the wall clock is set forward by 25 hours between writing the
  entry (line 78) and the sweep (line 224).
\<close>

definition cached_order :: cache where
  "cached_order =
     [(''u1_test_abc'', \<lparr>order_product_id = JStr ''p1'', order_user_id = JStr ''u1'',
                          timestamp = 1301\<rparr>)]"

definition clock_jump_io :: io where
  "clock_jump_io = (sample_io 1000 timed_out)\<lparr>clock_sweep := 90001301\<rparr>"

text \<open>The request identifier of a call, from its readings.\<close>

abbreviation (input) rid :: "io \<Rightarrow> string" where
  "rid w \<equiv> generateRequestId (clock_rid w) (random_rid w)"

section \<open>Properties\<close>

subsection \<open>The sweep as a filter\<close>

lemma map_of_filter_key:
  "map_of (filter (\<lambda>(k, v). Q k) c) k = (if Q k then map_of c k else None)"
  by (induction c) auto

lemma cleanup_loop_filter:
  "cleanup_loop now es c =
     filter (\<lambda>(k, v). \<not> (\<exists>e. (k, e) \<in> set es \<and> now - timestamp e > twentyFourHours)) c"
proof (induction es arbitrary: c)
  case Nil
  show ?case by simp
next
  case (Cons x es)
  obtain key ord where x: "x = (key, ord)" by (cases x)
  show ?case
    unfolding x by (auto simp: Cons.IH AList.delete_eq intro!: filter_cong)
qed

lemma map_of_cleanupOldOrders:
  "map_of (cleanupOldOrders now c) k =
     (if \<exists>e. (k, e) \<in> set c \<and> now - timestamp e > twentyFourHours then None else map_of c k)"
  unfolding cleanupOldOrders_def cleanup_loop_filter
  using map_of_filter_key [of "\<lambda>k. \<not> (\<exists>e. (k, e) \<in> set c \<and> now - timestamp e > twentyFourHours)" c k]
  by (simp del: not_ex)

lemma wf_cache_entry: "wf_cache c \<Longrightarrow> (k, e) \<in> set c \<longleftrightarrow> map_of c k = Some e"
  unfolding wf_cache_def by (auto dest: map_of_SomeD)

lemma wf_cache_cleanupOldOrders: "wf_cache c \<Longrightarrow> wf_cache (cleanupOldOrders now c)"
  unfolding wf_cache_def cleanupOldOrders_def cleanup_loop_filter
  by (simp add: distinct_map_filter)

lemma wf_cache_update: "wf_cache c \<Longrightarrow> wf_cache (AList.update k v c)"
  unfolding wf_cache_def by (simp add: distinct_update)

lemma sweep_wf:
  assumes "wf_cache c"
  shows "map_of (cleanupOldOrders now c) k =
     (case map_of c k of None \<Rightarrow> None
      | Some e \<Rightarrow> if now - timestamp e > twentyFourHours then None else Some e)"
  using assms by (auto simp: map_of_cleanupOldOrders wf_cache_entry split: option.splits)

subsection \<open>The validators\<close>

text \<open>
  C4. The simulated validator, given a token that is a string, returns a result whose
  \<open>success\<close> is true exactly when the token starts with \<open>test_\<close> or with
  \<open>simulated_purchase_token_\<close>; \<open>is_duplicate\<close> is false, the message of a failure is the
  invalid-token message, and \<open>validated_product_id\<close> is the product given.
\<close>

theorem simulated_validator_prefix:
  "\<exists>r. validateSimulatedPurchase stamp productId (JStr tok) userId = Inr r
       \<and> success r = (prefix ''test_'' tok \<or> prefix ''simulated_purchase_token_'' tok)
       \<and> is_duplicate r = Some False
       \<and> message r = (if success r then Msg_simulated_verified else Msg_simulated_invalid_token)
       \<and> validated_product_id r = Some productId"
  by (auto simp: Let_def)

theorem simulated_validator_prefix_witness:
  "(\<exists>r. validateSimulatedPurchase 7 (JStr ''p1'') (JStr ''test_abc'') (JStr ''u1'') = Inr r
       \<and> success r \<and> is_duplicate r = Some False \<and> message r = Msg_simulated_verified
       \<and> validated_product_id r = Some (JStr ''p1''))
   \<and> (\<exists>r. validateSimulatedPurchase 7 (JStr ''p1'') (JStr ''tes_abc'') (JStr ''u1'') = Inr r
       \<and> success r = False \<and> message r = Msg_simulated_invalid_token
       \<and> validated_product_id r = Some (JStr ''p1''))"
  using simulated_validator_prefix [of 7 "JStr ''p1''" "''test_abc''" "JStr ''u1''"]
    simulated_validator_prefix [of 7 "JStr ''p1''" "''tes_abc''" "JStr ''u1''"]
  by simp

text \<open>
  C5. The live validator, by the outcome of the remote request: a response whose data has
  \<open>ret\<close> equal to the number 0 (\<open>JZero\<close>) gives \<open>success = true\<close> and \<open>is_duplicate = false\<close>; a
  response with any other \<open>ret\<close> (or with no data) gives \<open>success = false\<close> and the
  failure message with the remote \<open>msg\<close> when that is truthy and with the return code
  otherwise; a request rejected with the code \<open>ECONNABORTED\<close> (the timeout of the HTTP
  client) gives \<open>success = false\<close> and the timeout message.
\<close>

theorem live_validator_outcomes:
  "(remote w (pico_request_data env w productId purchaseToken userId) = Resolved (Some d)
      \<and> ret d = JZero
    \<longrightarrow> success (validatePicoPurchase env w productId purchaseToken userId)
        \<and> is_duplicate (validatePicoPurchase env w productId purchaseToken userId) = Some False
        \<and> message (validatePicoPurchase env w productId purchaseToken userId) = Msg_pico_verified)
   \<and> (remote w (pico_request_data env w productId purchaseToken userId) = Resolved d'
      \<and> data_ret d' \<noteq> JZero
    \<longrightarrow> \<not> success (validatePicoPurchase env w productId purchaseToken userId)
        \<and> message (validatePicoPurchase env w productId purchaseToken userId)
            = Msg_pico_failed (if js_truthy (data_msg d')
                               then Remote_msg (js_toString (data_msg d'))
                               else Error_code (js_toString (data_ret d'))))
   \<and> (remote w (pico_request_data env w productId purchaseToken userId) = Rejected err
      \<and> err_code err = JStr ''ECONNABORTED''
    \<longrightarrow> \<not> success (validatePicoPurchase env w productId purchaseToken userId)
        \<and> message (validatePicoPurchase env w productId purchaseToken userId)
            = Msg_request_timeout)"
  by (simp add: validatePicoPurchase_def pico_failure_detail_def pico_error_message_def data_ret_def)

theorem live_validator_outcomes_witness:
  "success (validatePicoPurchase sample_env
      (sample_io 1000 (Resolved (Some \<lparr>ret = JZero, msg = JUndefined\<rparr>)))
      (JStr ''p1'') (JStr ''tok'') (JStr ''u1''))
   \<and> message (validatePicoPurchase sample_env
      (sample_io 1000 (Resolved (Some \<lparr>ret = JNum ''7'', msg = JStr ''expired''\<rparr>)))
      (JStr ''p1'') (JStr ''tok'') (JStr ''u1'')) = Msg_pico_failed (Remote_msg ''expired'')
   \<and> message (validatePicoPurchase sample_env
      (sample_io 1000 (Resolved (Some \<lparr>ret = JNum ''7'', msg = JUndefined\<rparr>)))
      (JStr ''p1'') (JStr ''tok'') (JStr ''u1'')) = Msg_pico_failed (Error_code ''7'')
   \<and> message (validatePicoPurchase sample_env (sample_io 1000 timed_out)
      (JStr ''p1'') (JStr ''tok'') (JStr ''u1'')) = Msg_request_timeout"
  using
    live_validator_outcomes [of "sample_io 1000 (Resolved (Some \<lparr>ret = JZero, msg = JUndefined\<rparr>))"
      sample_env "JStr ''p1''" "JStr ''tok''" "JStr ''u1''" "\<lparr>ret = JZero, msg = JUndefined\<rparr>"
      "None" "\<lparr>err_code = JUndefined, err_response_status = None\<rparr>"]
    live_validator_outcomes [of "sample_io 1000 (Resolved (Some \<lparr>ret = JNum ''7'', msg = JStr ''expired''\<rparr>))"
      sample_env "JStr ''p1''" "JStr ''tok''" "JStr ''u1''" "\<lparr>ret = JZero, msg = JUndefined\<rparr>"
      "Some \<lparr>ret = JNum ''7'', msg = JStr ''expired''\<rparr>" "\<lparr>err_code = JUndefined, err_response_status = None\<rparr>"]
    live_validator_outcomes [of "sample_io 1000 (Resolved (Some \<lparr>ret = JNum ''7'', msg = JUndefined\<rparr>))"
      sample_env "JStr ''p1''" "JStr ''tok''" "JStr ''u1''" "\<lparr>ret = JZero, msg = JUndefined\<rparr>"
      "Some \<lparr>ret = JNum ''7'', msg = JUndefined\<rparr>" "\<lparr>err_code = JUndefined, err_response_status = None\<rparr>"]
    live_validator_outcomes [of "sample_io 1000 timed_out"
      sample_env "JStr ''p1''" "JStr ''tok''" "JStr ''u1''" "\<lparr>ret = JZero, msg = JUndefined\<rparr>"
      "None" "\<lparr>err_code = JStr ''ECONNABORTED'', err_response_status = None\<rparr>"]
  by (simp add: sample_io_def timed_out_def data_ret_def data_msg_def)

subsection \<open>The signature stub\<close>

text \<open>
  C10. The signature does not depend on the data signed: at one clock reading, any two
  data objects get the same signature, the placeholder prefix followed by the reading;
  so the \<open>sign\<close> field of the outbound request is the same for any two purchases
  verified with the same environment and readings.
\<close>

theorem signature_ignores_data:
  "generatePicoSignature now d1 = generatePicoSignature now d2
   \<and> generatePicoSignature now d1 = ''demo_signature_'' @ show_int now
   \<and> map_of (pico_request_data env w p1 t1 u1) ''sign''
       = map_of (pico_request_data env w p2 t2 u2) ''sign''
   \<and> map_of (pico_request_data env w p1 t1 u1) ''sign''
       = Some (JStr (''demo_signature_'' @ show_int (clock_sign w)))"
  by (simp add: generatePicoSignature_def pico_request_data_def)

theorem signature_ignores_data_witness:
  "generatePicoSignature 42 [(''user_id'', JStr ''alice''), (''product_id'', JStr ''p1'')]
     = generatePicoSignature 42 [(''user_id'', JStr ''bob''), (''product_id'', JStr ''p2'')]
   \<and> signString [(''user_id'', JStr ''alice''), (''product_id'', JStr ''p1'')]
       = ''product_id=p1&user_id=alice''
   \<and> signString [(''user_id'', JStr ''bob''), (''product_id'', JStr ''p2'')]
       = ''product_id=p2&user_id=bob''"
  using signature_ignores_data [of 42 "[(''user_id'', JStr ''alice''), (''product_id'', JStr ''p1'')]"
      "[(''user_id'', JStr ''bob''), (''product_id'', JStr ''p2'')]"]
  by (simp add: signString_def sign_piece_def get_prop_def)

subsection \<open>The paths of the handler\<close>

lemma handler_falsy_field:
  assumes "http_method req = ''POST''" and "body req = Some b"
    and "\<not> js_truthy (product_id b) \<or> \<not> js_truthy (purchase_token b) \<or> \<not> js_truthy (user_id b)"
  shows "handler env w c req = (res_json 200 (missing_parameters_payload (rid w)), c)"
  using assms by (auto simp: handler_def handler_try_def)

lemma handler_no_body:
  assumes "http_method req = ''POST''" and "body req = None"
  shows "handler env w c req
         = (res_json 200 (internal_error_payload w TypeError_destructure (rid w)), c)"
  using assms by (simp add: handler_def handler_try_def)

lemma handler_duplicate:
  assumes "http_method req = ''POST''" and "body req = Some b"
    and "js_truthy (product_id b)" and "js_truthy (purchase_token b)" and "js_truthy (user_id b)"
    and "cache_has c (orderKey_of (user_id b) (purchase_token b))"
  shows "handler env w c req = (res_json 200 (duplicate_payload w b (rid w)), c)"
  using assms by (simp add: handler_def handler_try_def)

lemma handler_validator_returns:
  assumes "http_method req = ''POST''" and "body req = Some b"
    and "js_truthy (product_id b)" and "js_truthy (purchase_token b)" and "js_truthy (user_id b)"
    and "\<not> cache_has c (orderKey_of (user_id b) (purchase_token b))"
    and "dispatch env w (platform_or_default (platform b)) (product_id b) (purchase_token b) (user_id b)
         = Inr v"
  shows "handler env w c req
         = (res_json 200 (v\<lparr>request_id := Some (rid w),
                             processing_time := Some (clock_end w - clock_start w)\<rparr>),
            if success v \<and> is_duplicate v \<noteq> Some True
            then cleanupOldOrders (clock_sweep w) (record_order w b c) else c)"
  using assms by (simp add: handler_def handler_try_def Let_def)

lemma handler_validator_throws:
  assumes "http_method req = ''POST''" and "body req = Some b"
    and "js_truthy (product_id b)" and "js_truthy (purchase_token b)" and "js_truthy (user_id b)"
    and "\<not> cache_has c (orderKey_of (user_id b) (purchase_token b))"
    and "dispatch env w (platform_or_default (platform b)) (product_id b) (purchase_token b) (user_id b)
         = Inl e"
  shows "handler env w c req = (res_json 200 (internal_error_payload w e (rid w)), c)"
  using assms by (simp add: handler_def handler_try_def Let_def)

lemma dispatch_is_duplicate:
  "dispatch env w pf p t u = Inr v \<Longrightarrow> is_duplicate v = Some False"
  by (cases t)
     (auto simp: dispatch_def validatePicoPurchase_def Let_def
           split: if_splits remote_outcome.splits)

lemma dispatch_result:
  "dispatch env w pf p t u = Inr v
   \<Longrightarrow> is_duplicate v = Some False \<and> validated_product_id v = Some p"
  by (cases t)
     (auto simp: dispatch_def validatePicoPurchase_def Let_def
           split: if_splits remote_outcome.splits)

lemma handler_cache_cases:
  assumes "handler env w c req = (res, c')"
  shows "c' = c
       \<or> (\<exists>b p. body req = Some b \<and> json res = Some p \<and> success p
              \<and> is_duplicate p = Some False
              \<and> c' = cleanupOldOrders (clock_sweep w) (record_order w b c))"
  using assms
  by (auto simp: handler_def handler_try_def Let_def res_json_def
      dest: dispatch_is_duplicate split: if_splits option.splits sum.splits)

lemma handler_success_path:
  assumes "handler env w c req = (res, c')" and "body req = Some b"
    and "json res = Some p" and "success p" and "is_duplicate p = Some False"
  shows "http_method req = ''POST'' \<and> js_truthy (product_id b) \<and> js_truthy (purchase_token b)
       \<and> js_truthy (user_id b)
       \<and> \<not> cache_has c (orderKey_of (user_id b) (purchase_token b))"
  using assms
  by (auto simp: handler_def handler_try_def Let_def res_json_def
      method_not_allowed_payload_def missing_parameters_payload_def duplicate_payload_def
      internal_error_payload_def
      split: if_splits option.splits sum.splits)

lemma handler_success_fresh:
  assumes "handler env w c req = (res, c')" and "body req = Some b"
    and "json res = Some p" and "success p" and "is_duplicate p = Some False"
  shows "http_method req = ''POST'' \<and> js_truthy (product_id b) \<and> js_truthy (purchase_token b)
       \<and> js_truthy (user_id b)
       \<and> \<not> cache_has c (orderKey_of (user_id b) (purchase_token b))
       \<and> validated_product_id p = Some (product_id b)
       \<and> c' = cleanupOldOrders (clock_sweep w) (record_order w b c)"
proof -
  note path = handler_success_path [OF assms]
  show ?thesis
  proof (cases "dispatch env w (platform_or_default (platform b))
                  (product_id b) (purchase_token b) (user_id b)")
    case (Inl e)
    have "handler env w c req = (res_json 200 (internal_error_payload w e (rid w)), c)"
      using handler_validator_throws [of req b c env w e] path assms(2) Inl by simp
    then have "p = internal_error_payload w e (rid w)"
      using assms(1,3) by (simp add: res_json_def)
    then show ?thesis
      using assms(4) by (simp add: internal_error_payload_def)
  next
    case (Inr v)
    have "handler env w c req
         = (res_json 200 (v\<lparr>request_id := Some (rid w),
                             processing_time := Some (clock_end w - clock_start w)\<rparr>),
            if success v \<and> is_duplicate v \<noteq> Some True
            then cleanupOldOrders (clock_sweep w) (record_order w b c) else c)"
      using handler_validator_returns [of req b c env w v] path assms(2) Inr by simp
    then have p: "p = v\<lparr>request_id := Some (rid w),
                             processing_time := Some (clock_end w - clock_start w)\<rparr>"
      and c': "c' = (if success v \<and> is_duplicate v \<noteq> Some True
            then cleanupOldOrders (clock_sweep w) (record_order w b c) else c)"
      using assms(1,3) by (simp_all add: res_json_def)
    have "validated_product_id v = Some (product_id b)"
      using dispatch_result [OF Inr] by simp
    then show ?thesis
      using path p c' assms(4,5) by simp
  qed
qed

lemma handler_success_cases:
  assumes "handler env w c req = (res, c')" and "body req = Some b"
    and "json res = Some p" and "success p"
  shows "is_duplicate p = Some False
       \<or> (js_truthy (purchase_token b) \<and> js_truthy (user_id b)
          \<and> cache_has c (orderKey_of (user_id b) (purchase_token b))
          \<and> c' = c \<and> validated_product_id p = Some (product_id b))"
  using assms
  apply (auto simp: handler_def handler_try_def Let_def res_json_def
      method_not_allowed_payload_def missing_parameters_payload_def duplicate_payload_def
      internal_error_payload_def
      split: if_splits option.splits sum.splits)
   apply (drule dispatch_is_duplicate, simp)+
  done

lemma fresh_key_entry:
  "\<not> cache_has c k \<Longrightarrow> (k, e) \<in> set (AList.update k v c) \<longleftrightarrow> e = v"
  unfolding cache_has_def
  by (induction c) (auto split: if_splits)

lemma fresh_order_survives:
  assumes "\<not> cache_has c (orderKey_of (user_id b) (purchase_token b))"
    and "\<not> clock_sweep w - clock_insert w > twentyFourHours"
  shows "cache_has (cleanupOldOrders (clock_sweep w) (record_order w b c))
           (orderKey_of (user_id b) (purchase_token b))"
  using assms
  by (simp add: cache_has_def map_of_cleanupOldOrders)
     (simp add: record_order_def fresh_key_entry [unfolded cache_has_def] update_conv')

subsection \<open>Evaluation at the sample inputs\<close>

lemmas sample_defs = sample_post_def sample_io_def sample_env_def timed_out_def sample_body_def
lemmas handler_defs = handler_def handler_try_def dispatch_def platform_or_default_def
  orderKey_of_def cache_has_def record_order_def cleanupOldOrders_def twentyFourHours_def
  res_json_def missing_parameters_payload_def duplicate_payload_def
  internal_error_payload_def method_not_allowed_payload_def
  validatePicoPurchase_def pico_error_message_def pico_failure_detail_def data_ret_def data_msg_def

lemma rid_1000: "generateRequestId 1000 ''k3j9x0q2z'' = ''req_1000_k3j9x0q2z''"
  by (simp add: generateRequestId_def show_int_def show_nat.simps digit_char_def)

lemma sample_first_call:
  "handler sample_env (sample_io 1000 out) []
     (sample_post (JStr ''p1'') (JStr ''test_abc'') (JStr ''u1'') (JStr ''simulated''))
   = (res_json 200
        \<lparr>success = True, message = Msg_simulated_verified,
         validated_product_id = Some (JStr ''p1''), is_duplicate = Some False,
         request_id = Some ''req_1000_k3j9x0q2z'', server_time = Some 1300,
         processing_time = Some 303\<rparr>,
      [(''u1_test_abc'', \<lparr>order_product_id = JStr ''p1'', order_user_id = JStr ''u1'',
                          timestamp = 1301\<rparr>)])"
  by (simp add: sample_defs handler_defs Let_def rid_1000)


subsection \<open>Requests that are rejected before the cache\<close>

text \<open>
  C6. A POST request that lacks \<open>product_id\<close>, \<open>purchase_token\<close> or \<open>user_id\<close> (or has no
  body at all) is answered with status 200 and a payload whose \<open>success\<close> is false: the
  missing-parameters payload when there is a body. The cache is returned as it was, and
  the response does not depend on the cache or on the remote service.
\<close>

theorem missing_field_rejected:
  assumes "http_method req = ''POST''"
    and "body req = None
         \<or> (\<exists>b. body req = Some b
               \<and> (product_id b = JUndefined \<or> purchase_token b = JUndefined \<or> user_id b = JUndefined))"
  shows "\<exists>p. handler env w c req = (res_json 200 p, c)
           \<and> success p = False
           \<and> p = (if body req = None
                  then internal_error_payload w TypeError_destructure (rid w)
                  else missing_parameters_payload (rid w))
           \<and> fst (handler env w c' req) = fst (handler env w c req)
           \<and> fst (handler env (w\<lparr>remote := f\<rparr>) c req) = fst (handler env w c req)"
  using assms(2)
proof
  assume "body req = None"
  then show ?thesis using assms(1)
    by (simp add: handler_no_body internal_error_payload_def)
next
  assume "\<exists>b. body req = Some b
               \<and> (product_id b = JUndefined \<or> purchase_token b = JUndefined \<or> user_id b = JUndefined)"
  then obtain b where b: "body req = Some b"
    and f: "\<not> js_truthy (product_id b) \<or> \<not> js_truthy (purchase_token b) \<or> \<not> js_truthy (user_id b)"
    by auto
  show ?thesis
    by (simp add: handler_falsy_field [OF assms(1) b f] b missing_parameters_payload_def)
qed

theorem missing_field_rejected_witness:
  "handler sample_env (sample_io 1000 timed_out) []
      (sample_post (JStr ''p1'') JUndefined (JStr ''u1'') (JStr ''simulated''))
    = (res_json 200 (missing_parameters_payload ''req_1000_k3j9x0q2z''), [])
   \<and> status (res_json 200 (missing_parameters_payload ''req_1000_k3j9x0q2z'')) = 200
   \<and> success (missing_parameters_payload ''req_1000_k3j9x0q2z'') = False"
proof -
  have r: "rid (sample_io 1000 timed_out) = ''req_1000_k3j9x0q2z''"
    by (simp add: sample_io_def rid_1000)
  show ?thesis
    using missing_field_rejected [of
        "sample_post (JStr ''p1'') JUndefined (JStr ''u1'') (JStr ''simulated'')"
        sample_env "sample_io 1000 timed_out" "[]" "[]" "\<lambda>d. timed_out"]
    unfolding r
    by (auto simp: sample_post_def res_json_def missing_parameters_payload_def)
qed

text \<open>
  C9. A required field that is present and equal to the empty string is treated as an
  absent one: the handler answers with the missing-parameters payload (status 200,
  \<open>success\<close> false) and the unchanged cache, exactly as for the same request without the
  field.
\<close>

theorem empty_field_rejected:
  assumes "http_method req = ''POST''" and "body req = Some b"
  shows "(product_id b = JStr [] \<longrightarrow>
            handler env w c req = (res_json 200 (missing_parameters_payload (rid w)), c)
            \<and> handler env w c req
                = handler env w c (req\<lparr>body := Some (b\<lparr>product_id := JUndefined\<rparr>)\<rparr>))
       \<and> (purchase_token b = JStr [] \<longrightarrow>
            handler env w c req = (res_json 200 (missing_parameters_payload (rid w)), c)
            \<and> handler env w c req
                = handler env w c (req\<lparr>body := Some (b\<lparr>purchase_token := JUndefined\<rparr>)\<rparr>))
       \<and> (user_id b = JStr [] \<longrightarrow>
            handler env w c req = (res_json 200 (missing_parameters_payload (rid w)), c)
            \<and> handler env w c req
                = handler env w c (req\<lparr>body := Some (b\<lparr>user_id := JUndefined\<rparr>)\<rparr>))"
  using assms by (auto simp: handler_falsy_field)

theorem empty_field_rejected_witness:
  "handler sample_env (sample_io 1000 timed_out) []
      (sample_post (JStr ''p1'') (JStr []) (JStr ''u1'') (JStr ''simulated''))
     = (res_json 200 (missing_parameters_payload ''req_1000_k3j9x0q2z''), [])
   \<and> handler sample_env (sample_io 1000 timed_out) []
      (sample_post (JStr ''p1'') (JStr []) (JStr ''u1'') (JStr ''simulated''))
     = handler sample_env (sample_io 1000 timed_out) []
      (sample_post (JStr ''p1'') JUndefined (JStr ''u1'') (JStr ''simulated''))"
proof -
  have r: "rid (sample_io 1000 timed_out) = ''req_1000_k3j9x0q2z''"
    by (simp add: sample_io_def rid_1000)
  show ?thesis
    using empty_field_rejected [of
        "sample_post (JStr ''p1'') (JStr []) (JStr ''u1'') (JStr ''simulated'')"
        "sample_body\<lparr>purchase_token := JStr []\<rparr>"
        sample_env "sample_io 1000 timed_out" "[]"]
    unfolding r
    by (auto simp: sample_post_def sample_body_def)
qed

subsection \<open>The platform default\<close>

text \<open>
  C2 as stated fails. The default of line 39 is \<open>pico\<close>, not \<open>native\<close>: a request without a platform and with
  a token the simulated validator would approve is answered from the live validator (here
  with its timeout message).
\<close>

theorem platform_default_counterexample:
  "platform_or_default JUndefined = JStr ''pico''
   \<and> platform_or_default JUndefined \<noteq> JStr ''native''
   \<and> fst (handler sample_env (sample_io 1000 timed_out) []
            (sample_post (JStr ''p1'') (JStr ''test_abc'') (JStr ''u1'') JUndefined))
       = res_json 200
           \<lparr>success = False, message = Msg_request_timeout,
            validated_product_id = Some (JStr ''p1''), is_duplicate = Some False,
            request_id = Some ''req_1000_k3j9x0q2z'', server_time = Some 1300,
            processing_time = Some 303\<rparr>
   \<and> validateSimulatedPurchase 1300 (JStr ''p1'') (JStr ''test_abc'') (JStr ''u1'')
       = Inr \<lparr>success = True, message = Msg_simulated_verified,
              validated_product_id = Some (JStr ''p1''), is_duplicate = Some False,
              request_id = None, server_time = Some 1300, processing_time = None\<rparr>"
  by (simp add: sample_defs handler_defs Let_def rid_1000)

text \<open>
  C2, as the code has it. For a POST request with the three required fields present,
  without a platform and with a key that is not in the cache, the platform is \<open>pico\<close>
  and the handler answers with the result of the live validator.
\<close>

theorem omitted_platform_is_pico:
  assumes "http_method req = ''POST''" and "body req = Some b"
    and "js_truthy (product_id b)" and "js_truthy (purchase_token b)" and "js_truthy (user_id b)"
    and "platform b = JUndefined"
    and "\<not> cache_has c (orderKey_of (user_id b) (purchase_token b))"
  shows "platform_or_default (platform b) = JStr ''pico''
       \<and> dispatch env w (platform_or_default (platform b)) (product_id b) (purchase_token b) (user_id b)
           = Inr (validatePicoPurchase env w (product_id b) (purchase_token b) (user_id b))
       \<and> fst (handler env w c req)
           = res_json 200 ((validatePicoPurchase env w (product_id b) (purchase_token b) (user_id b))
                \<lparr>request_id := Some (rid w),
                 processing_time := Some (clock_end w - clock_start w)\<rparr>)"
proof -
  have p: "platform_or_default (platform b) = JStr ''pico''"
    using assms(6) by (simp add: platform_or_default_def)
  have d: "dispatch env w (platform_or_default (platform b)) (product_id b) (purchase_token b) (user_id b)
           = Inr (validatePicoPurchase env w (product_id b) (purchase_token b) (user_id b))"
    by (simp add: p dispatch_def)
  show ?thesis
    using p d handler_validator_returns [OF assms(1-5) assms(7) d] by simp
qed

theorem omitted_platform_is_pico_witness:
  "fst (handler sample_env (sample_io 1000 (Resolved (Some \<lparr>ret = JZero, msg = JUndefined\<rparr>))) []
            (sample_post (JStr ''p1'') (JStr ''test_abc'') (JStr ''u1'') JUndefined))
       = res_json 200
           \<lparr>success = True, message = Msg_pico_verified,
            validated_product_id = Some (JStr ''p1''), is_duplicate = Some False,
            request_id = Some ''req_1000_k3j9x0q2z'', server_time = Some 1300,
            processing_time = Some 303\<rparr>"
  using omitted_platform_is_pico [of
      "sample_post (JStr ''p1'') (JStr ''test_abc'') (JStr ''u1'') JUndefined"
      "sample_body\<lparr>platform := JUndefined\<rparr>" "[]" sample_env
      "sample_io 1000 (Resolved (Some \<lparr>ret = JZero, msg = JUndefined\<rparr>))"]
  by (simp add: sample_defs cache_has_def validatePicoPurchase_def data_ret_def rid_1000)

subsection \<open>Request identifier and processing time\<close>

text \<open>
  C8 as stated fails. The missing-parameters response carries the request identifier
  and no processing time.
\<close>

theorem processing_time_counterexample:
  "http_method (sample_post (JStr ''p1'') JUndefined (JStr ''u1'') (JStr ''simulated'')) \<noteq> ''OPTIONS''
   \<and> json (fst (handler sample_env (sample_io 1000 timed_out) []
            (sample_post (JStr ''p1'') JUndefined (JStr ''u1'') (JStr ''simulated''))))
       = Some \<lparr>success = False, message = Msg_missing_parameters,
            validated_product_id = None, is_duplicate = None,
            request_id = Some ''req_1000_k3j9x0q2z'', server_time = None,
            processing_time = None\<rparr>"
  by (simp add: sample_defs handler_defs Let_def rid_1000)

text \<open>
  C8, as the code has it. Every response but the one to OPTIONS has a payload with the
  request identifier generated for the call. The processing time is in the payload
  exactly when the request reached a validator and the validator returned a result; it
  is then the end reading minus the start reading.
\<close>

theorem request_id_on_every_response:
  assumes "http_method req \<noteq> ''OPTIONS''"
  shows "\<exists>p. json (fst (handler env w c req)) = Some p
           \<and> request_id p = Some (rid w)
           \<and> (processing_time p \<noteq> None \<longleftrightarrow>
                (\<exists>b v. http_method req = ''POST'' \<and> body req = Some b
                   \<and> js_truthy (product_id b) \<and> js_truthy (purchase_token b) \<and> js_truthy (user_id b)
                   \<and> \<not> cache_has c (orderKey_of (user_id b) (purchase_token b))
                   \<and> dispatch env w (platform_or_default (platform b))
                        (product_id b) (purchase_token b) (user_id b) = Inr v
                   \<and> processing_time p = Some (clock_end w - clock_start w)))"
  using assms
  by (auto simp: handler_def handler_try_def Let_def res_json_def method_not_allowed_payload_def
      missing_parameters_payload_def duplicate_payload_def internal_error_payload_def
      split: option.splits sum.splits)

theorem request_id_on_every_response_witness:
  "(\<exists>p. json (fst (handler sample_env (sample_io 1000 timed_out) []
                 \<lparr>http_method = ''GET'', body = None\<rparr>)) = Some p
        \<and> request_id p = Some ''req_1000_k3j9x0q2z'' \<and> processing_time p = None)
   \<and> (\<exists>p. json (fst (handler sample_env (sample_io 1000 timed_out) []
                 (sample_post (JStr ''p1'') (JStr ''test_abc'') (JStr ''u1'') (JStr ''simulated''))))
             = Some p
        \<and> request_id p = Some ''req_1000_k3j9x0q2z'' \<and> processing_time p = Some 303)"
proof -
  have a: "\<exists>p. json (fst (handler sample_env (sample_io 1000 timed_out) []
                 \<lparr>http_method = ''GET'', body = None\<rparr>)) = Some p
        \<and> request_id p = Some ''req_1000_k3j9x0q2z'' \<and> processing_time p = None"
    using request_id_on_every_response [of "\<lparr>http_method = ''GET'', body = None\<rparr>"
        sample_env "sample_io 1000 timed_out" "[]"]
    by (auto simp: sample_io_def rid_1000)
  have b: "\<exists>p. json (fst (handler sample_env (sample_io 1000 timed_out) []
                 (sample_post (JStr ''p1'') (JStr ''test_abc'') (JStr ''u1'') (JStr ''simulated''))))
             = Some p
        \<and> request_id p = Some ''req_1000_k3j9x0q2z'' \<and> processing_time p = Some 303"
    by (simp add: sample_first_call res_json_def)
  show ?thesis using a b by blast
qed

subsection \<open>Duplicates\<close>

text \<open>
  C1 as stated fails. The duplicate answer echoes the product of the request at hand
  (line 58): after the order of product \<open>p1\<close>, the same user and token with the product
  \<open>expensive\<close> are answered \<open>validated_product_id = expensive\<close>. A request whose key is
  cached is not answered as a duplicate when it lacks the product or is not a POST. And
  when the clock is set forward by more than 24 hours between the insert and its sweep,
  the new entry is swept at once and the second call is validated again.
\<close>

theorem duplicate_product_counterexample:
  "handler sample_env (sample_io 1000 timed_out) []
      (sample_post (JStr ''p1'') (JStr ''test_abc'') (JStr ''u1'') (JStr ''simulated''))
     = (res_json 200
          \<lparr>success = True, message = Msg_simulated_verified,
           validated_product_id = Some (JStr ''p1''), is_duplicate = Some False,
           request_id = Some ''req_1000_k3j9x0q2z'', server_time = Some 1300,
           processing_time = Some 303\<rparr>,
        cached_order)
   \<and> fst (handler sample_env (sample_io 2000 timed_out) cached_order
        (sample_post (JStr ''expensive'') (JStr ''test_abc'') (JStr ''u1'') (JStr ''simulated'')))
     = res_json 200
          \<lparr>success = True, message = Msg_duplicate_order,
           validated_product_id = Some (JStr ''expensive''), is_duplicate = Some True,
           request_id = Some (generateRequestId 2000 ''k3j9x0q2z''), server_time = Some 2300,
           processing_time = None\<rparr>
   \<and> cache_has cached_order (orderKey_of (JStr ''u1'') (JStr ''test_abc''))
   \<and> fst (handler sample_env (sample_io 2000 timed_out) cached_order
        (sample_post JUndefined (JStr ''test_abc'') (JStr ''u1'') (JStr ''simulated'')))
     = res_json 200
          \<lparr>success = False, message = Msg_missing_parameters,
           validated_product_id = None, is_duplicate = None,
           request_id = Some (generateRequestId 2000 ''k3j9x0q2z''), server_time = None,
           processing_time = None\<rparr>
   \<and> fst (handler sample_env (sample_io 2000 timed_out) cached_order
        \<lparr>http_method = ''GET'', body = Some sample_body\<rparr>)
     = res_json 405
          \<lparr>success = False, message = Msg_method_not_allowed,
           validated_product_id = None, is_duplicate = None,
           request_id = Some (generateRequestId 2000 ''k3j9x0q2z''), server_time = None,
           processing_time = None\<rparr>
   \<and> handler sample_env clock_jump_io []
      (sample_post (JStr ''p1'') (JStr ''test_abc'') (JStr ''u1'') (JStr ''simulated''))
     = (res_json 200
          \<lparr>success = True, message = Msg_simulated_verified,
           validated_product_id = Some (JStr ''p1''), is_duplicate = Some False,
           request_id = Some ''req_1000_k3j9x0q2z'', server_time = Some 1300,
           processing_time = Some 303\<rparr>,
        [])
   \<and> fst (handler sample_env (sample_io 2000 timed_out) []
        (sample_post (JStr ''p1'') (JStr ''test_abc'') (JStr ''u1'') (JStr ''simulated'')))
     = res_json 200
          \<lparr>success = True, message = Msg_simulated_verified,
           validated_product_id = Some (JStr ''p1''), is_duplicate = Some False,
           request_id = Some (generateRequestId 2000 ''k3j9x0q2z''), server_time = Some 2300,
           processing_time = Some 303\<rparr>"
  by (simp add: cached_order_def clock_jump_io_def sample_defs handler_defs Let_def rid_1000)

text \<open>
  C1, as the code has it. For a POST request with the required fields present whose key is
  in the cache, the handler answers with the duplicate payload (\<open>success\<close> true,
  \<open>is_duplicate\<close> true), leaves the cache as it is, and the answer does not depend on the
  remote service: no validator is asked. In particular, when a call for the same user and
  token has just been answered with \<open>success\<close> true (and the clock did not move by more
  than 24 hours between writing the entry and the sweep of that call), the next call is
  answered as a duplicate, with the product of its own request as \<open>validated_product_id\<close>:
  that is the \<open>validated_product_id\<close> of the first answer exactly when the two requests
  name the same product.
\<close>

theorem duplicate_short_circuit:
  assumes "http_method req = ''POST''" and "body req = Some b"
    and "js_truthy (product_id b)"
  shows "(js_truthy (purchase_token b) \<and> js_truthy (user_id b)
          \<and> cache_has c (orderKey_of (user_id b) (purchase_token b))
          \<longrightarrow> handler env w c req = (res_json 200 (duplicate_payload w b (rid w)), c)
              \<and> handler env (w\<lparr>remote := f\<rparr>) c req = handler env w c req)
       \<and> (handler env w1 c0 req1 = (res1, c) \<and> body req1 = Some b1 \<and> json res1 = Some p1
          \<and> success p1
          \<and> user_id b = user_id b1 \<and> purchase_token b = purchase_token b1
          \<and> clock_sweep w1 - clock_insert w1 \<le> twentyFourHours
          \<longrightarrow> handler env w c req = (res_json 200 (duplicate_payload w b (rid w)), c)
              \<and> success (duplicate_payload w b (rid w))
              \<and> is_duplicate (duplicate_payload w b (rid w)) = Some True
              \<and> validated_product_id (duplicate_payload w b (rid w)) = Some (product_id b)
              \<and> (validated_product_id (duplicate_payload w b (rid w)) = validated_product_id p1
                  \<longleftrightarrow> product_id b = product_id b1))"
proof (intro conjI impI)
  assume a: "js_truthy (purchase_token b) \<and> js_truthy (user_id b)
          \<and> cache_has c (orderKey_of (user_id b) (purchase_token b))"
  show "handler env w c req = (res_json 200 (duplicate_payload w b (rid w)), c)"
    using a assms by (simp add: handler_duplicate)
  show "handler env (w\<lparr>remote := f\<rparr>) c req = handler env w c req"
    using a assms by (simp add: handler_duplicate duplicate_payload_def)
next
  assume h: "handler env w1 c0 req1 = (res1, c) \<and> body req1 = Some b1 \<and> json res1 = Some p1
          \<and> success p1
          \<and> user_id b = user_id b1 \<and> purchase_token b = purchase_token b1
          \<and> clock_sweep w1 - clock_insert w1 \<le> twentyFourHours"
  have first: "js_truthy (purchase_token b1) \<and> js_truthy (user_id b1)
       \<and> cache_has c (orderKey_of (user_id b1) (purchase_token b1))
       \<and> validated_product_id p1 = Some (product_id b1)"
  proof (cases "is_duplicate p1 = Some False")
    case True
    have fresh: "js_truthy (purchase_token b1) \<and> js_truthy (user_id b1)
       \<and> \<not> cache_has c0 (orderKey_of (user_id b1) (purchase_token b1))
       \<and> validated_product_id p1 = Some (product_id b1)
       \<and> c = cleanupOldOrders (clock_sweep w1) (record_order w1 b1 c0)"
      using handler_success_fresh [of env w1 c0 req1 res1 c b1 p1] h True by simp
    then show ?thesis
      using h fresh_order_survives [of c0 b1 w1] by simp
  next
    case False
    then show ?thesis
      using handler_success_cases [of env w1 c0 req1 res1 c b1 p1] h by simp
  qed
  show "handler env w c req = (res_json 200 (duplicate_payload w b (rid w)), c)"
    using first h assms by (simp add: handler_duplicate)
  show "success (duplicate_payload w b (rid w))"
    by (simp add: duplicate_payload_def)
  show "is_duplicate (duplicate_payload w b (rid w)) = Some True"
    by (simp add: duplicate_payload_def)
  show "validated_product_id (duplicate_payload w b (rid w)) = Some (product_id b)"
    by (simp add: duplicate_payload_def)
  show "validated_product_id (duplicate_payload w b (rid w)) = validated_product_id p1
        \<longleftrightarrow> product_id b = product_id b1"
    using first by (simp add: duplicate_payload_def)
qed

theorem duplicate_short_circuit_witness:
  "handler sample_env (sample_io 2000 timed_out)
     (snd (handler sample_env (sample_io 1000 timed_out) []
        (sample_post (JStr ''p1'') (JStr ''test_abc'') (JStr ''u1'') (JStr ''simulated''))))
     (sample_post (JStr ''p1'') (JStr ''test_abc'') (JStr ''u1'') (JStr ''simulated''))
   = (res_json 200
        \<lparr>success = True, message = Msg_duplicate_order,
         validated_product_id = Some (JStr ''p1''), is_duplicate = Some True,
         request_id = Some (generateRequestId 2000 ''k3j9x0q2z''), server_time = Some 2300,
         processing_time = None\<rparr>,
      [(''u1_test_abc'', \<lparr>order_product_id = JStr ''p1'', order_user_id = JStr ''u1'',
                          timestamp = 1301\<rparr>)])"
proof -
  let ?req = "sample_post (JStr ''p1'') (JStr ''test_abc'') (JStr ''u1'') (JStr ''simulated'')"
  let ?c1 = "[(''u1_test_abc'', \<lparr>order_product_id = JStr ''p1'', order_user_id = JStr ''u1'',
                          timestamp = 1301\<rparr>)]"
  let ?p1 = "\<lparr>success = True, message = Msg_simulated_verified,
         validated_product_id = Some (JStr ''p1''), is_duplicate = Some False,
         request_id = Some ''req_1000_k3j9x0q2z'', server_time = Some 1300,
         processing_time = Some 303\<rparr>"
  have first: "handler sample_env (sample_io 1000 timed_out) [] ?req = (res_json 200 ?p1, ?c1)"
    by (rule sample_first_call)
  have "handler sample_env (sample_io 2000 timed_out) ?c1 ?req
        = (res_json 200 (duplicate_payload (sample_io 2000 timed_out) sample_body
             (rid (sample_io 2000 timed_out))), ?c1)"
    using first
      duplicate_short_circuit [where req = ?req and b = sample_body and c = ?c1
        and env = sample_env and w = "sample_io 2000 timed_out"
        and ?w1.0 = "sample_io 1000 timed_out" and ?c0.0 = "[]" and ?req1.0 = ?req
        and ?res1.0 = "res_json 200 ?p1" and ?b1.0 = sample_body and ?p1.0 = ?p1]
    by (simp add: sample_post_def sample_body_def res_json_def sample_io_def twentyFourHours_def)
  then show ?thesis
    unfolding first snd_conv
    by (simp add: duplicate_payload_def sample_body_def sample_io_def)
qed

subsection \<open>Eviction\<close>

text \<open>
  C7. When a call inserts an entry (its answer has \<open>success\<close> true and \<open>is_duplicate\<close>
  false), the cache it leaves is the sweep of the cache with the new entry: every entry
  whose age at the sweep is more than 24 hours is absent, every entry younger than that
  (or exactly 24 hours old) is present with its value unchanged, and no key is added.
\<close>

theorem sweep_after_insert:
  assumes "wf_cache c" and "handler env w c req = (res, c')" and "body req = Some b"
    and "json res = Some p" and "success p" and "is_duplicate p = Some False"
  shows "c' = cleanupOldOrders (clock_sweep w) (record_order w b c)
       \<and> (\<forall>k e. map_of (record_order w b c) k = Some e \<longrightarrow>
             (clock_sweep w - timestamp e > twentyFourHours \<longrightarrow> map_of c' k = None)
           \<and> (clock_sweep w - timestamp e < twentyFourHours \<longrightarrow> map_of c' k = Some e)
           \<and> (clock_sweep w - timestamp e = twentyFourHours \<longrightarrow> map_of c' k = Some e))
       \<and> (\<forall>k. map_of (record_order w b c) k = None \<longrightarrow> map_of c' k = None)"
proof -
  have c': "c' = cleanupOldOrders (clock_sweep w) (record_order w b c)"
    using handler_success_fresh [OF assms(2,3,4,5,6)] by simp
  have wf: "wf_cache (record_order w b c)"
    using assms(1) by (simp add: record_order_def wf_cache_update)
  show ?thesis
    by (simp add: c' sweep_wf [OF wf])
qed

theorem sweep_after_insert_witness:
  "snd (handler sample_env (sample_io 100000000 timed_out)
      [(''u0_old'', \<lparr>order_product_id = JStr ''p0'', order_user_id = JStr ''u0'', timestamp = 0\<rparr>),
       (''u2_young'', \<lparr>order_product_id = JStr ''p2'', order_user_id = JStr ''u2'',
                       timestamp = 90000000\<rparr>)]
      (sample_post (JStr ''p1'') (JStr ''test_abc'') (JStr ''u1'') (JStr ''simulated'')))
   = [(''u2_young'', \<lparr>order_product_id = JStr ''p2'', order_user_id = JStr ''u2'',
                       timestamp = 90000000\<rparr>),
      (''u1_test_abc'', \<lparr>order_product_id = JStr ''p1'', order_user_id = JStr ''u1'',
                          timestamp = 100000301\<rparr>)]
   \<and> map_of (snd (handler sample_env (sample_io 100000000 timed_out)
      [(''u0_old'', \<lparr>order_product_id = JStr ''p0'', order_user_id = JStr ''u0'', timestamp = 0\<rparr>),
       (''u2_young'', \<lparr>order_product_id = JStr ''p2'', order_user_id = JStr ''u2'',
                       timestamp = 90000000\<rparr>)]
      (sample_post (JStr ''p1'') (JStr ''test_abc'') (JStr ''u1'') (JStr ''simulated''))))
       ''u0_old'' = None
   \<and> map_of (snd (handler sample_env (sample_io 100000000 timed_out)
      [(''u0_old'', \<lparr>order_product_id = JStr ''p0'', order_user_id = JStr ''u0'', timestamp = 0\<rparr>),
       (''u2_young'', \<lparr>order_product_id = JStr ''p2'', order_user_id = JStr ''u2'',
                       timestamp = 90000000\<rparr>)]
      (sample_post (JStr ''p1'') (JStr ''test_abc'') (JStr ''u1'') (JStr ''simulated''))))
       ''u2_young''
     = Some \<lparr>order_product_id = JStr ''p2'', order_user_id = JStr ''u2'', timestamp = 90000000\<rparr>"
proof -
  let ?c = "[(''u0_old'', \<lparr>order_product_id = JStr ''p0'', order_user_id = JStr ''u0'', timestamp = 0\<rparr>),
       (''u2_young'', \<lparr>order_product_id = JStr ''p2'', order_user_id = JStr ''u2'',
                       timestamp = 90000000\<rparr>)]"
  let ?w = "sample_io 100000000 timed_out"
  let ?req = "sample_post (JStr ''p1'') (JStr ''test_abc'') (JStr ''u1'') (JStr ''simulated'')"
  let ?p = "\<lparr>success = True, message = Msg_simulated_verified,
         validated_product_id = Some (JStr ''p1''), is_duplicate = Some False,
         request_id = Some (rid ?w), server_time = Some 100000300,
         processing_time = Some 303\<rparr>"
  let ?c' = "[(''u2_young'', \<lparr>order_product_id = JStr ''p2'', order_user_id = JStr ''u2'',
                       timestamp = 90000000\<rparr>),
      (''u1_test_abc'', \<lparr>order_product_id = JStr ''p1'', order_user_id = JStr ''u1'',
                          timestamp = 100000301\<rparr>)]"
  have call: "handler sample_env ?w ?c ?req = (res_json 200 ?p, ?c')"
    by (simp add: sample_defs handler_defs Let_def)
  have wf: "wf_cache ?c"
    by (simp add: wf_cache_def)
  have before: "record_order ?w sample_body ?c
     = [(''u0_old'', \<lparr>order_product_id = JStr ''p0'', order_user_id = JStr ''u0'', timestamp = 0\<rparr>),
        (''u2_young'', \<lparr>order_product_id = JStr ''p2'', order_user_id = JStr ''u2'',
                       timestamp = 90000000\<rparr>),
        (''u1_test_abc'', \<lparr>order_product_id = JStr ''p1'', order_user_id = JStr ''u1'',
                          timestamp = 100000301\<rparr>)]"
    by (simp add: record_order_def orderKey_of_def sample_body_def sample_io_def)
  have h1: "body ?req = Some sample_body"
    by (simp add: sample_post_def sample_body_def)
  have h2: "json (res_json 200 ?p) = Some ?p"
    by (simp add: res_json_def)
  have h3: "success ?p" and h4: "is_duplicate ?p = Some False"
    by simp_all
  note swept = sweep_after_insert [OF wf call h1 h2 h3 h4, THEN conjunct2, THEN conjunct1]
  have old: "map_of ?c' ''u0_old'' = None"
    using swept [rule_format, of "''u0_old''"
        "\<lparr>order_product_id = JStr ''p0'', order_user_id = JStr ''u0'', timestamp = 0\<rparr>"]
    unfolding before by (simp add: sample_io_def twentyFourHours_def)
  have young: "map_of ?c' ''u2_young''
      = Some \<lparr>order_product_id = JStr ''p2'', order_user_id = JStr ''u2'', timestamp = 90000000\<rparr>"
    using swept [rule_format, of "''u2_young''"
        "\<lparr>order_product_id = JStr ''p2'', order_user_id = JStr ''u2'', timestamp = 90000000\<rparr>"]
    unfolding before by (simp add: sample_io_def twentyFourHours_def)
  show ?thesis
    unfolding call snd_conv using old young by simp
qed

subsection \<open>Runs\<close>

lemma serve_Nil: "serve env [] = ([], [])"
  by (simp add: serve_def)

lemma serve_snoc: "serve env (calls @ [call]) = serve_step env (serve env calls) call"
  by (simp add: serve_def)

lemma validated_before_append:
  "validated_before (log @ [x]) u t \<longleftrightarrow> validated_before log u t \<or> validates u t x"
  by (simp add: validated_before_def)

lemma map_of_record_order:
  "map_of (record_order w b c) k = Some e
   \<Longrightarrow> (k = orderKey_of (user_id b) (purchase_token b) \<and> order_user_id e = user_id b)
       \<or> map_of c k = Some e"
  by (auto simp: record_order_def update_conv' split: if_splits)

lemma map_of_sweep_subset:
  "map_of (cleanupOldOrders now c) k = Some e \<Longrightarrow> map_of c k = Some e"
  by (simp add: map_of_cleanupOldOrders split: if_splits)

lemma serve_wf: "wf_cache (fst (serve env calls))"
proof (induction calls rule: rev_induct)
  case Nil
  show ?case by (simp add: serve_Nil wf_cache_def)
next
  case (snoc call calls)
  obtain res c' where h: "handler env (fst call) (fst (serve env calls)) (snd call) = (res, c')"
    by (cases "handler env (fst call) (fst (serve env calls)) (snd call)")
  have "wf_cache c'"
    using handler_cache_cases [OF h]
  proof
    assume "c' = fst (serve env calls)"
    then show ?thesis using snoc.IH by simp
  next
    assume "\<exists>b p. body (snd call) = Some b \<and> json res = Some p \<and> success p
              \<and> is_duplicate p = Some False
              \<and> c' = cleanupOldOrders (clock_sweep (fst call))
                     (record_order (fst call) b (fst (serve env calls)))"
    then obtain b where c': "c' = cleanupOldOrders (clock_sweep (fst call))
                     (record_order (fst call) b (fst (serve env calls)))"
      by blast
    have "wf_cache (record_order (fst call) b (fst (serve env calls)))"
      unfolding record_order_def by (rule wf_cache_update) (rule snoc.IH)
    then show ?thesis
      unfolding c' by (rule wf_cache_cleanupOldOrders)
  qed
  then show ?case
    by (simp add: serve_snoc serve_step_def h)
qed

subsection \<open>The cache invariant\<close>

lemmas run_defs = serve_def serve_step_def validated_before_def validates_def

lemma colliding_run:
  "serve sample_env colliding_calls
   = ([(''a_b_test_c'', \<lparr>order_product_id = JStr ''p1'', order_user_id = JStr ''a_b'',
                          timestamp = 1301\<rparr>)],
      [(sample_post (JStr ''p1'') (JStr ''test_c'') (JStr ''a_b'') (JStr ''simulated''),
        res_json 200
          \<lparr>success = True, message = Msg_simulated_verified,
           validated_product_id = Some (JStr ''p1''), is_duplicate = Some False,
           request_id = Some ''req_1000_k3j9x0q2z'', server_time = Some 1300,
           processing_time = Some 303\<rparr>)])"
  by (simp add: colliding_calls_def run_defs sample_defs handler_defs Let_def rid_1000)

text \<open>
  In every cache that a run from the empty cache reaches, a key that is present is the
  key of a pair of a user and a token that an earlier call validated successfully and not
  as a duplicate; the user of that pair is the one the entry stores.
\<close>

lemma cached_key_has_validated_pair:
  assumes "serve env calls = (c, log)" and "map_of c k = Some e"
  shows "\<exists>t. k = orderKey_of (order_user_id e) t \<and> validated_before log (order_user_id e) t"
  using assms
proof (induction calls arbitrary: c log k e rule: rev_induct)
  case Nil
  then show ?case by (simp add: serve_Nil)
next
  case (snoc call calls)
  obtain c0 log0 where s0: "serve env calls = (c0, log0)"
    by (cases "serve env calls")
  obtain res c' where h: "handler env (fst call) c0 (snd call) = (res, c')"
    by (cases "handler env (fst call) c0 (snd call)")
  have c: "c = c'" and log: "log = log0 @ [(snd call, res)]"
    using snoc.prems(1) by (simp_all add: serve_snoc serve_step_def s0 h)
  from handler_cache_cases [OF h] show ?case
  proof
    assume "c' = c0"
    then have "map_of c0 k = Some e" using snoc.prems(2) c by simp
    from snoc.IH [OF s0 this] show ?thesis
      by (auto simp: log validated_before_append)
  next
    assume "\<exists>b p. body (snd call) = Some b \<and> json res = Some p \<and> success p
              \<and> is_duplicate p = Some False
              \<and> c' = cleanupOldOrders (clock_sweep (fst call)) (record_order (fst call) b c0)"
    then obtain b p where b: "body (snd call) = Some b" and p: "json res = Some p"
      and ok: "success p" "is_duplicate p = Some False"
      and c': "c' = cleanupOldOrders (clock_sweep (fst call)) (record_order (fst call) b c0)"
      by blast
    have "map_of (cleanupOldOrders (clock_sweep (fst call)) (record_order (fst call) b c0)) k
          = Some e"
      using snoc.prems(2) c c' by simp
    then have "map_of (record_order (fst call) b c0) k = Some e"
      by (rule map_of_sweep_subset)
    from map_of_record_order [OF this] show ?thesis
    proof
      assume new: "k = orderKey_of (user_id b) (purchase_token b) \<and> order_user_id e = user_id b"
      have "validates (user_id b) (purchase_token b) (snd call, res)"
        by (simp add: validates_def b p ok)
      then show ?thesis
        using new by (auto simp: log validated_before_append)
    next
      assume "map_of c0 k = Some e"
      from snoc.IH [OF s0 this] show ?thesis
        by (auto simp: log validated_before_append)
    qed
  qed
qed

text \<open>
  C3. The invariant of the cache: a key that is present means that exactly this pair of a
  user and a token has produced a successful, non-duplicate validation. The code does not
  keep it, because the key is the user, \<open>_\<close> and the token joined (line 52), and distinct
  pairs can give one key. After the first run the key \<open>a_b_test_c\<close> is in the cache. The
  pair of user \<open>a\<close> and token \<open>b_test_c\<close> has that key and has never been validated; its
  request is answered \<open>success\<close> true as a duplicate order, although on a fresh cache the
  validator rejects its token. After the second run the key \<open>a_test_x_test_y\<close> is in the
  cache and two distinct pairs with that key have each been validated.
\<close>

theorem key_collision_failing_input:
  "cache_has (fst (serve sample_env colliding_calls)) (orderKey_of (JStr ''a'') (JStr ''b_test_c''))
   \<and> \<not> validated_before (snd (serve sample_env colliding_calls)) (JStr ''a'') (JStr ''b_test_c'')
   \<and> validated_before (snd (serve sample_env colliding_calls)) (JStr ''a_b'') (JStr ''test_c'')
   \<and> orderKey_of (JStr ''a'') (JStr ''b_test_c'') = orderKey_of (JStr ''a_b'') (JStr ''test_c'')
   \<and> json (fst (handler sample_env (sample_io 2000 timed_out)
        (fst (serve sample_env colliding_calls))
        (sample_post (JStr ''p9'') (JStr ''b_test_c'') (JStr ''a'') (JStr ''simulated''))))
     = Some \<lparr>success = True, message = Msg_duplicate_order,
         validated_product_id = Some (JStr ''p9''), is_duplicate = Some True,
         request_id = Some (generateRequestId 2000 ''k3j9x0q2z''), server_time = Some 2300,
         processing_time = None\<rparr>
   \<and> json (fst (handler sample_env (sample_io 2000 timed_out) []
        (sample_post (JStr ''p9'') (JStr ''b_test_c'') (JStr ''a'') (JStr ''simulated''))))
     = Some \<lparr>success = False, message = Msg_simulated_invalid_token,
         validated_product_id = Some (JStr ''p9''), is_duplicate = Some False,
         request_id = Some (generateRequestId 2000 ''k3j9x0q2z''), server_time = Some 2300,
         processing_time = Some 303\<rparr>
   \<and> cache_has (fst (serve sample_env evicting_calls)) ''a_test_x_test_y''
   \<and> orderKey_of (JStr ''a'') (JStr ''test_x_test_y'') = ''a_test_x_test_y''
   \<and> orderKey_of (JStr ''a_test_x'') (JStr ''test_y'') = ''a_test_x_test_y''
   \<and> validated_before (snd (serve sample_env evicting_calls)) (JStr ''a'') (JStr ''test_x_test_y'')
   \<and> validated_before (snd (serve sample_env evicting_calls)) (JStr ''a_test_x'') (JStr ''test_y'')"
proof -
  have first: "cache_has (fst (serve sample_env colliding_calls))
       (orderKey_of (JStr ''a'') (JStr ''b_test_c''))
   \<and> \<not> validated_before (snd (serve sample_env colliding_calls)) (JStr ''a'') (JStr ''b_test_c'')
   \<and> validated_before (snd (serve sample_env colliding_calls)) (JStr ''a_b'') (JStr ''test_c'')
   \<and> orderKey_of (JStr ''a'') (JStr ''b_test_c'') = orderKey_of (JStr ''a_b'') (JStr ''test_c'')
   \<and> json (fst (handler sample_env (sample_io 2000 timed_out)
        (fst (serve sample_env colliding_calls))
        (sample_post (JStr ''p9'') (JStr ''b_test_c'') (JStr ''a'') (JStr ''simulated''))))
     = Some \<lparr>success = True, message = Msg_duplicate_order,
         validated_product_id = Some (JStr ''p9''), is_duplicate = Some True,
         request_id = Some (generateRequestId 2000 ''k3j9x0q2z''), server_time = Some 2300,
         processing_time = None\<rparr>
   \<and> json (fst (handler sample_env (sample_io 2000 timed_out) []
        (sample_post (JStr ''p9'') (JStr ''b_test_c'') (JStr ''a'') (JStr ''simulated''))))
     = Some \<lparr>success = False, message = Msg_simulated_invalid_token,
         validated_product_id = Some (JStr ''p9''), is_duplicate = Some False,
         request_id = Some (generateRequestId 2000 ''k3j9x0q2z''), server_time = Some 2300,
         processing_time = Some 303\<rparr>"
    unfolding colliding_run fst_conv snd_conv
    by (simp add: validated_before_def validates_def sample_defs handler_defs Let_def)
  have second: "cache_has (fst (serve sample_env evicting_calls)) ''a_test_x_test_y''
   \<and> orderKey_of (JStr ''a'') (JStr ''test_x_test_y'') = ''a_test_x_test_y''
   \<and> orderKey_of (JStr ''a_test_x'') (JStr ''test_y'') = ''a_test_x_test_y''
   \<and> validated_before (snd (serve sample_env evicting_calls)) (JStr ''a'') (JStr ''test_x_test_y'')
   \<and> validated_before (snd (serve sample_env evicting_calls)) (JStr ''a_test_x'') (JStr ''test_y'')"
    by (simp add: evicting_calls_def run_defs sample_defs handler_defs Let_def)
  show ?thesis
    using first second by blast
qed

end
